theory Spec2Isabelle
  imports Main "HOL-Library.AList" "HOL-Library.Multiset" "HOL-Library.Option_ord"
    "HOL-Library.Char_ord" "HOL-Library.List_Lexorder"
begin

section \<open>Python values and exceptions\<close>

text \<open>
  A resource record and the values read from it. The accessors of
  \<^verbatim>\<open>ServerProperties\<close> read a record by subscription (\<^verbatim>\<open>a["user_id"]\<close>), so a record is
  a mapping from names to values; a dictionary is an association list in insertion order.
\<close>

datatype pyval =
    PNone
  | PBool bool
  | PInt int
  | PStr string
  | PList "pyval list"
  | PDict "(string \<times> pyval) list"

text \<open>
  The exceptions the query engine raises or lets through. \<^verbatim>\<open>KeyError\<close> carries the
  key that was not found, the three query errors their message.
\<close>

datatype exn =
    AttributeError
  | KeyError pyval
  | TypeError
  | AssertionError
  | ParseQueryError string
  | QueryPresetMappingError string
  | QueryPropertyMappingError string

datatype pyclass = C_NoneType | C_bool | C_int | C_str | C_list | C_dict | C_object

fun type_of :: "pyval \<Rightarrow> pyclass" where
  "type_of PNone = C_NoneType"
| "type_of (PBool b) = C_bool"
| "type_of (PInt i) = C_int"
| "type_of (PStr s) = C_str"
| "type_of (PList xs) = C_list"
| "type_of (PDict d) = C_dict"

text \<open>\<^verbatim>\<open>isinstance(v, c)\<close>: \<^verbatim>\<open>bool\<close> is a subclass of \<^verbatim>\<open>int\<close>, every class of \<^verbatim>\<open>object\<close>.\<close>

definition isinstance :: "pyval \<Rightarrow> pyclass \<Rightarrow> bool" where
  "isinstance v c = (type_of v = c \<or> c = C_object \<or> (type_of v = C_bool \<and> c = C_int))"

fun class_name :: "pyclass \<Rightarrow> string" where
  "class_name C_NoneType = ''NoneType''"
| "class_name C_bool = ''bool''"
| "class_name C_int = ''int''"
| "class_name C_str = ''str''"
| "class_name C_list = ''list''"
| "class_name C_dict = ''dict''"
| "class_name C_object = ''object''"

text \<open>How an f-string prints a class: \<^verbatim>\<open><class 'int'>\<close>.\<close>

definition class_repr :: "pyclass \<Rightarrow> string" where
  "class_repr c = ''<class '' @ [CHR 0x27] @ class_name c @ [CHR 0x27] @ ''>''"

text \<open>
  Subscription \<^verbatim>\<open>a[k]\<close> with a string key: a mapping without the key raises
  \<^verbatim>\<open>KeyError\<close>, a value that is no mapping raises \<^verbatim>\<open>TypeError\<close>. It never raises
  \<^verbatim>\<open>AttributeError\<close>.
\<close>

fun getitem :: "pyval \<Rightarrow> string \<Rightarrow> exn + pyval" where
  "getitem (PDict d) k = (case map_of d k of None \<Rightarrow> Inl (KeyError (PStr k)) | Some v \<Rightarrow> Inr v)"
| "getitem v k = Inl TypeError"

section \<open>ServerProperties (enums/query/props/server\_properties.py)\<close>

datatype ServerProperties =
    FLAVOR_ID
  | HYPERVISOR_ID
  | IMAGE_ID
  | PROJECT_ID
  | SERVER_CREATION_DATE
  | SERVER_DESCRIPTION
  | SERVER_ID
  | SERVER_LAST_UPDATED_DATE
  | SERVER_NAME
  | SERVER_STATUS
  | USER_ID

text \<open>Iterating over the enumeration class yields its members in declaration order.\<close>

definition ServerProperties_members :: "ServerProperties list" where
  "ServerProperties_members =
     [FLAVOR_ID, HYPERVISOR_ID, IMAGE_ID, PROJECT_ID, SERVER_CREATION_DATE,
      SERVER_DESCRIPTION, SERVER_ID, SERVER_LAST_UPDATED_DATE, SERVER_NAME,
      SERVER_STATUS, USER_ID]"

fun ServerProperties_name :: "ServerProperties \<Rightarrow> string" where
  "ServerProperties_name FLAVOR_ID = ''FLAVOR_ID''"
| "ServerProperties_name HYPERVISOR_ID = ''HYPERVISOR_ID''"
| "ServerProperties_name IMAGE_ID = ''IMAGE_ID''"
| "ServerProperties_name PROJECT_ID = ''PROJECT_ID''"
| "ServerProperties_name SERVER_CREATION_DATE = ''SERVER_CREATION_DATE''"
| "ServerProperties_name SERVER_DESCRIPTION = ''SERVER_DESCRIPTION''"
| "ServerProperties_name SERVER_ID = ''SERVER_ID''"
| "ServerProperties_name SERVER_LAST_UPDATED_DATE = ''SERVER_LAST_UPDATED_DATE''"
| "ServerProperties_name SERVER_NAME = ''SERVER_NAME''"
| "ServerProperties_name SERVER_STATUS = ''SERVER_STATUS''"
| "ServerProperties_name USER_ID = ''USER_ID''"

text \<open>
  The argument of \<^verbatim>\<open>get_prop_func\<close> is any Python object: a member of
  \<^verbatim>\<open>ServerProperties\<close>; a member of some other plain enumeration class, given by the
  names of its class and of the member (the repository has a second enumeration
  \<^verbatim>\<open>enums.query.server_properties.ServerProperties\<close> with the same member names, whose
  members are not members of this one); or an object that is no enumeration member at
  all, such as a string, an integer or \<^verbatim>\<open>None\<close>.
\<close>

datatype prop_arg =
    ServerProp ServerProperties
  | OtherEnum string string
  | NotEnum pyval

text \<open>
  What the membership test \<^verbatim>\<open>x in ServerProperties\<close> does with an object that is no
  enumeration member is a matter of the interpreter, and is a parameter of
  \<^verbatim>\<open>get_prop_func\<close> below. From Python 3.8 to 3.11 the test raises \<^verbatim>\<open>TypeError\<close> on
  every such object.
\<close>

type_synonym enum_contains = "pyval \<Rightarrow> exn + bool"

definition enum_contains_3_8_to_3_11 :: enum_contains where
  "enum_contains_3_8_to_3_11 v = Inl TypeError"

type_synonym prop_func = "pyval \<Rightarrow> exn + pyval"

text \<open>The accessor table of \<^verbatim>\<open>get_prop_func\<close>, in the order of the dictionary literal.\<close>

definition mapping :: "(ServerProperties \<times> prop_func) list" where
  "mapping =
     [(USER_ID, \<lambda>a. getitem a ''user_id''),
      (HYPERVISOR_ID, \<lambda>a. getitem a ''host_id''),
      (SERVER_ID, \<lambda>a. getitem a ''id''),
      (SERVER_NAME, \<lambda>a. getitem a ''name''),
      (SERVER_DESCRIPTION, \<lambda>a. getitem a ''description''),
      (SERVER_STATUS, \<lambda>a. getitem a ''status''),
      (SERVER_CREATION_DATE, \<lambda>a. getitem a ''created_at''),
      (SERVER_LAST_UPDATED_DATE, \<lambda>a. getitem a ''updated_at''),
      (FLAVOR_ID, \<lambda>a. getitem a ''flavor_id''),
      (IMAGE_ID, \<lambda>a. getitem a ''image_id''),
      (PROJECT_ID, \<lambda>a.
         case getitem a ''location'' of Inl e \<Rightarrow> Inl e
         | Inr l \<Rightarrow> (case getitem l ''project'' of Inl e \<Rightarrow> Inl e
                    | Inr p \<Rightarrow> getitem p ''id''))]"

text \<open>
  \<^verbatim>\<open>get_prop_func\<close>: the two assertions that every member has an entry, the membership
  test \<^verbatim>\<open>prop not in ServerProperties\<close>, then the table lookup (a key that the
  dictionary does not have raises \<^verbatim>\<open>KeyError\<close>). A member of another enumeration is
  not in the class; for an object that is no enumeration member the test is the
  interpreter's.
\<close>

definition get_prop_func :: "enum_contains \<Rightarrow> prop_arg \<Rightarrow> exn + prop_func" where
  "get_prop_func contains prop =
     (if \<not> list_all (\<lambda>i. i \<in> set (map fst mapping)) ServerProperties_members
      then Inl AssertionError
      else case prop of
        OtherEnum c n \<Rightarrow>
          Inl (QueryPropertyMappingError
            ''Error: failed to get property mapping, property is not supported in ServerProperties'')
      | NotEnum v \<Rightarrow>
          (case contains v of
             Inl e \<Rightarrow> Inl e
           | Inr False \<Rightarrow>
               Inl (QueryPropertyMappingError
                 ''Error: failed to get property mapping, property is not supported in ServerProperties'')
           | Inr True \<Rightarrow> Inl (KeyError v))
      | ServerProp p \<Rightarrow>
          (case map_of mapping p of
             None \<Rightarrow> Inl (KeyError (PStr (ServerProperties_name p)))
           | Some f \<Rightarrow> Inr f))"

definition get_marker_prop_func :: "enum_contains \<Rightarrow> exn + prop_func" where
  "get_marker_prop_func contains = get_prop_func contains (ServerProp SERVER_ID)"

section \<open>ClientSideHandler (openstack\_query/handlers/client\_side\_handler.py)\<close>

text \<open>
  Log messages are left out of the model throughout: they change no result. The one
  place where building a log message can raise is kept (see \<^verbatim>\<open>_check_filter_func\<close>).
\<close>

text \<open>
  What \<^verbatim>\<open>inspect.signature\<close> reports of a filter function: its parameters in order, each
  with name, kind, default (\<open>None\<close> is \<^verbatim>\<open>Parameter.empty\<close>) and annotation. An
  annotation is absent, \<^verbatim>\<open>Any\<close>, a class, or something else that \<^verbatim>\<open>isinstance\<close> does
  not take as its second argument (a subscripted generic such as \<^verbatim>\<open>List[str]\<close>, a
  string): on that, \<^verbatim>\<open>isinstance\<close> raises \<^verbatim>\<open>TypeError\<close>.
\<close>

datatype param_kind =
    POSITIONAL_ONLY
  | POSITIONAL_OR_KEYWORD
  | VAR_POSITIONAL
  | KEYWORD_ONLY
  | VAR_KEYWORD

datatype annotation = Ann_empty | Ann_Any | Ann_class pyclass | Ann_not_class string

record parameter =
  param_name :: string
  param_kind :: param_kind
  param_default :: "pyval option"
  param_annotation :: annotation

type_synonym filter_params = "(string \<times> pyval) list"

text \<open>
  A filter function: its signature, and what a call with the property value and keyword
  arguments returns or raises.
\<close>

record filter_func =
  signature :: "parameter list"
  call :: "pyval \<Rightarrow> filter_params \<Rightarrow> exn + bool"

text \<open>
  An entry of a preset's property list is a property or the string \<^verbatim>\<open>"*"\<close>.
\<close>

datatype 'p prop_entry = Star | Prop 'p

record ('pre, 'p) ClientSideHandler =
  filter_function_mappings :: "('pre \<times> 'p prop_entry list) list"
  filter_functions :: "('pre \<times> filter_func) list"

definition preset_known :: "('pre, 'p) ClientSideHandler \<Rightarrow> 'pre \<Rightarrow> bool" where
  "preset_known h preset = (preset \<in> set (map fst (filter_function_mappings h)))"

definition check_supported :: "('pre, 'p) ClientSideHandler \<Rightarrow> 'pre \<Rightarrow> 'p \<Rightarrow> bool" where
  "check_supported h preset prop =
     (if \<not> preset_known h preset then False
      else case map_of (filter_function_mappings h) preset of
        None \<Rightarrow> False
      | Some props \<Rightarrow>
          if Prop prop \<in> set props then True
          else if [Star] = props then True
          else False)"

text \<open>
  \<^verbatim>\<open>_filter_func_wrapper\<close>: only \<^verbatim>\<open>AttributeError\<close> of the accessor is caught; any other
  exception of the accessor, and any of the filter function, goes to the caller.
\<close>

definition filter_func_wrapper ::
  "pyval \<Rightarrow> filter_func \<Rightarrow> prop_func \<Rightarrow> filter_params option \<Rightarrow> exn + bool" where
  "filter_func_wrapper item selected_filter_func selected_prop_func filter_func_kwargs =
     (case selected_prop_func item of
        Inl AttributeError \<Rightarrow> Inr False
      | Inl e \<Rightarrow> Inl e
      | Inr item_prop \<Rightarrow>
          (case filter_func_kwargs of
             None \<Rightarrow> call selected_filter_func item_prop []
           | Some kw \<Rightarrow>
               if kw \<noteq> [] then call selected_filter_func item_prop kw
               else call selected_filter_func item_prop []))"

text \<open>
  The loop of \<^verbatim>\<open>_check_filter_func\<close> over the parameters: the first
  positional-or-keyword parameter that is given with a wrong type, or not given and
  without default, ends the check with its reason; one that is given and annotated with
  something that is no class ends it with the \<^verbatim>\<open>TypeError\<close> of \<^verbatim>\<open>isinstance\<close>.
\<close>

fun check_params :: "parameter list \<Rightarrow> filter_params \<Rightarrow> exn + string option" where
  "check_params [] func_kwargs = Inr None"
| "check_params (param # parameters) func_kwargs =
     (if param_kind param = POSITIONAL_OR_KEYWORD then
        (case map_of func_kwargs (param_name param) of
           Some kwargs_value \<Rightarrow>
             (case param_annotation param of
                Ann_class param_type \<Rightarrow>
                  if \<not> isinstance kwargs_value param_type
                  then Inr (Some (param_name param @ '' given has incorrect type, expected ''
                                  @ class_repr param_type @ '', found ''
                                  @ class_repr (type_of kwargs_value)))
                  else check_params parameters func_kwargs
              | Ann_not_class a \<Rightarrow> Inl TypeError
              | _ \<Rightarrow> check_params parameters func_kwargs)
         | None \<Rightarrow>
             if param_default param = None
             then Inr (Some (param_name param @ '' expected but not given''))
             else check_params parameters func_kwargs)
      else check_params parameters func_kwargs)"

text \<open>
  The message for unexpected names prints a Python set. The order in which a set of
  strings is printed is the interpreter's (it changes with the hash seed), so the
  printing is a parameter \<open>set_str\<close> of the check. \<open>set_repr\<close> is one such printing, in
  the order of the keyword arguments; the examples use it.
\<close>

fun join :: "string \<Rightarrow> string list \<Rightarrow> string" where
  "join sep [] = []"
| "join sep [x] = x"
| "join sep (x # y # ys) = x @ sep @ join sep (y # ys)"

definition set_repr :: "string list \<Rightarrow> string" where
  "set_repr xs = ''{'' @ join '', '' (map (\<lambda>x. [CHR 0x27] @ x @ [CHR 0x27]) xs) @ ''}''"

text \<open>
  \<^verbatim>\<open>_check_filter_func\<close>. The first parameter is skipped. The debug message is built from
  \<^verbatim>\<open>func_kwargs.items()\<close>, so \<^verbatim>\<open>None\<close> for the keyword arguments raises
  \<^verbatim>\<open>AttributeError\<close>.
\<close>

definition check_filter_func ::
  "(string list \<Rightarrow> string) \<Rightarrow> filter_func \<Rightarrow> filter_params option \<Rightarrow> exn + (bool \<times> string)" where
  "check_filter_func set_str func func_kwargs =
     (let parameters = tl (signature func);
          has_varargs = list_ex (\<lambda>param. param_kind param = VAR_POSITIONAL) parameters;
          has_varkwargs = list_ex (\<lambda>param. param_kind param = VAR_KEYWORD) parameters
      in case func_kwargs of
           None \<Rightarrow> Inl AttributeError
         | Some kw \<Rightarrow>
             (case check_params parameters kw of
                Inl e \<Rightarrow> Inl e
              | Inr (Some reason) \<Rightarrow> Inr (False, reason)
              | Inr None \<Rightarrow>
                  if \<not> has_varargs \<and> \<not> has_varkwargs then
                    (let unexpected_vals =
                       filter (\<lambda>k. k \<notin> set (map param_name parameters)) (remdups (map fst kw))
                     in if unexpected_vals \<noteq> []
                        then Inr (False, ''unexpected arguments: '' @ [CHR 0x27]
                                         @ set_str unexpected_vals @ [CHR 0x27])
                        else Inr (True, ''''))
                  else Inr (True, '''')))"

text \<open>
  \<^verbatim>\<open>get_filter_func\<close>. The names of the preset and of the property (\<^verbatim>\<open>preset.name\<close>,
  \<^verbatim>\<open>prop.name\<close>) are given by \<open>pre_name\<close> and \<open>prop_name\<close>: the enumerations of presets
  and the base class of the properties are not part of the sources at hand. \<open>set_str\<close>
  is the printing of a set of names, handed on to the check.
\<close>

definition preset_not_found_msg :: "string \<Rightarrow> string \<Rightarrow> string" where
  "preset_not_found_msg preset_n prop_n =
     ''Preset Not Found: failed to find filter_function mapping for preset ''
     @ [CHR 0x27] @ preset_n @ [CHR 0x27] @ '' and property ''
     @ [CHR 0x27] @ prop_n @ [CHR 0x27]
     @ ''does the preset work with property specified?''"

definition preset_argument_error_msg :: "string \<Rightarrow> string \<Rightarrow> string \<Rightarrow> string" where
  "preset_argument_error_msg preset_n prop_n reason =
     ''Preset Argument Error: failed to build client-side filter function for preset:prop: ''
     @ [CHR 0x27] @ preset_n @ [CHR 0x27] @ '':''
     @ [CHR 0x27] @ prop_n @ [CHR 0x27] @ '' ''
     @ ''reason: '' @ reason"

definition get_filter_func ::
  "(string list \<Rightarrow> string) \<Rightarrow> ('pre \<Rightarrow> string) \<Rightarrow> ('p \<Rightarrow> string) \<Rightarrow>
   ('pre, 'p) ClientSideHandler \<Rightarrow> 'pre \<Rightarrow> 'p \<Rightarrow>
   prop_func \<Rightarrow> filter_params option \<Rightarrow> exn + (pyval \<Rightarrow> exn + bool)" where
  "get_filter_func set_str pre_name prop_name h preset prop prop_fn filter_func_kwargs =
     (let filter_func =
            (if check_supported h preset prop then map_of (filter_functions h) preset else None)
      in case filter_func of
           None \<Rightarrow>
             Inl (QueryPresetMappingError
                   (preset_not_found_msg (pre_name preset) (prop_name prop)))
         | Some ff \<Rightarrow>
             (case check_filter_func set_str ff filter_func_kwargs of
                Inl e \<Rightarrow> Inl e
              | Inr (filter_func_valid, reason) \<Rightarrow>
                  if \<not> filter_func_valid then
                    Inl (QueryPresetMappingError
                          (preset_argument_error_msg (pre_name preset) (prop_name prop) reason))
                  else Inr (\<lambda>resource.
                         filter_func_wrapper resource ff prop_fn filter_func_kwargs)))"

section \<open>PropHandler and ServerSideHandler (collaborators)\<close>

text \<open>
  The sources of \<^verbatim>\<open>PropHandler\<close> and \<^verbatim>\<open>ServerSideHandler\<close> are not at hand; the
  builder and the parser use them through three methods of the first and one of the
  second, which are taken as they are given: \<^verbatim>\<open>check_supported(prop)\<close>,
  \<^verbatim>\<open>get_prop(obj, prop)\<close>, \<^verbatim>\<open>get_prop_func(prop)\<close> (a function or \<^verbatim>\<open>None\<close>), and
  \<^verbatim>\<open>get_filters(preset, prop, params)\<close> (a dictionary or \<^verbatim>\<open>None\<close>, or an exception).
\<close>

record ('o, 'p, 'v) PropHandler =
  ph_check_supported :: "'p \<Rightarrow> bool"
  ph_get_prop :: "'o \<Rightarrow> 'p \<Rightarrow> 'v"
  ph_get_prop_func :: "'p \<Rightarrow> ('o \<Rightarrow> exn + 'v) option"

type_synonym ('pre, 'p) ServerSideHandler =
  "'pre \<Rightarrow> 'p \<Rightarrow> filter_params option \<Rightarrow> exn + filter_params option"

section \<open>QueryBuilder (openstack\_query/query\_builder.py)\<close>

record ('pre, 'p) QueryBuilder =
  client_side_handlers :: "('pre, 'p) ClientSideHandler list"
  prop_handler :: "(pyval, 'p, pyval) PropHandler"
  server_side_handler :: "('pre, 'p) ServerSideHandler option"
  client_side_filter :: "(pyval \<Rightarrow> exn + bool) option"
  server_side_filters :: "filter_params option"

definition QueryBuilder_init ::
  "(pyval, 'p, pyval) PropHandler \<Rightarrow> ('pre, 'p) ClientSideHandler list \<Rightarrow>
   ('pre, 'p) ServerSideHandler option \<Rightarrow> ('pre, 'p) QueryBuilder" where
  "QueryBuilder_init ph hs ssh =
     \<lparr>client_side_handlers = hs, prop_handler = ph, server_side_handler = ssh,
      client_side_filter = None, server_side_filters = None\<rparr>"

text \<open>The loop of \<^verbatim>\<open>_get_preset_handler\<close>: the first handler that supports the pair.\<close>

fun first_supported ::
  "('pre, 'p) ClientSideHandler list \<Rightarrow> 'pre \<Rightarrow> 'p \<Rightarrow> ('pre, 'p) ClientSideHandler option" where
  "first_supported [] preset prop = None"
| "first_supported (i # rest) preset prop =
     (if check_supported i preset prop then Some i else first_supported rest preset prop)"

definition no_handler_for_preset_msg :: "string \<Rightarrow> string \<Rightarrow> string" where
  "no_handler_for_preset_msg preset_n prop_n =
     ''No client-side handler found for preset '' @ [CHR 0x27] @ preset_n @ [CHR 0x27]
     @ '' - property '' @ [CHR 0x27] @ prop_n @ [CHR 0x27] @ '' pair ''
     @ ''- resource likely does not support querying using this preset''"

definition no_handler_for_pair_msg :: "string \<Rightarrow> string" where
  "no_handler_for_pair_msg preset_n =
     ''No client-side handler found for preset '' @ [CHR 0x27] @ preset_n @ [CHR 0x27]
     @ ''- this query is likely misconfigured/preset is not supported on resource''"

definition get_preset_handler ::
  "('pre \<Rightarrow> string) \<Rightarrow> ('p \<Rightarrow> string) \<Rightarrow> ('pre, 'p) QueryBuilder \<Rightarrow> 'pre \<Rightarrow> 'p \<Rightarrow>
   exn + ('pre, 'p) ClientSideHandler" where
  "get_preset_handler pre_name prop_name b preset prop =
     (if \<not> list_ex (\<lambda>i. preset_known i preset) (client_side_handlers b)
      then Inl (QueryPresetMappingError
                 (no_handler_for_preset_msg (pre_name preset) (prop_name prop)))
      else case first_supported (client_side_handlers b) preset prop of
             Some i \<Rightarrow> Inr i
           | None \<Rightarrow> Inl (QueryPresetMappingError (no_handler_for_pair_msg (pre_name preset))))"

definition prop_not_supported_msg :: "string \<Rightarrow> string" where
  "prop_not_supported_msg prop_n =
     [CHR 0x0A] @ replicate 16 (CHR '' '')
     @ ''Error: failed to get property mapping, given property''
     @ [CHR 0x0A] @ replicate 16 (CHR '' '')
     @ prop_n @ '' is not supported in prop_handler''
     @ [CHR 0x0A] @ replicate 16 (CHR '' '')"

text \<open>
  \<^verbatim>\<open>parse_where\<close> returns nothing; the model returns the exception raised, if any, and
  the builder as the call leaves it. An exception of the server-side handler (or its
  absence: \<^verbatim>\<open>get_filters\<close> of \<^verbatim>\<open>None\<close> raises \<^verbatim>\<open>AttributeError\<close>) comes after the
  client-side filter has been stored.
\<close>

definition parse_where ::
  "(string list \<Rightarrow> string) \<Rightarrow> ('pre \<Rightarrow> string) \<Rightarrow> ('p \<Rightarrow> string) \<Rightarrow>
   ('pre, 'p) QueryBuilder \<Rightarrow> 'pre \<Rightarrow> 'p \<Rightarrow>
   filter_params option \<Rightarrow> (exn + unit) \<times> ('pre, 'p) QueryBuilder" where
  "parse_where set_str pre_name prop_name b preset prop preset_kwargs =
     (if client_side_filter b \<noteq> None
      then (Inl (ParseQueryError ''Error: Already set a query preset''), b)
      else case ph_get_prop_func (prop_handler b) prop of
        None \<Rightarrow> (Inl (QueryPropertyMappingError (prop_not_supported_msg (prop_name prop))), b)
      | Some prop_fn \<Rightarrow>
          (case get_preset_handler pre_name prop_name b preset prop of
             Inl e \<Rightarrow> (Inl e, b)
           | Inr preset_handler \<Rightarrow>
               (case get_filter_func set_str pre_name prop_name preset_handler preset prop prop_fn
                       preset_kwargs of
                  Inl e \<Rightarrow> (Inl e, b)
                | Inr f \<Rightarrow>
                    (let b1 = b\<lparr>client_side_filter := Some f\<rparr>
                     in case server_side_handler b1 of
                          None \<Rightarrow> (Inl AttributeError, b1)
                        | Some get_filters \<Rightarrow>
                            (case get_filters preset prop preset_kwargs of
                               Inl e \<Rightarrow> (Inl e, b1)
                             | Inr fs \<Rightarrow> (Inr (), b1\<lparr>server_side_filters := fs\<rparr>))))))"

section \<open>QueryParser (openstack\_query/query\_parser.py)\<close>

text \<open>
  A Python dictionary keeps its keys in insertion order, and storing under a key that is
  already present replaces the value where the key stands: this is \<^const>\<open>AList.update\<close>
  on an association list. The values of a property are compared by the sort, so they are
  of a linearly ordered type; \<open>prop_name\<close> gives \<^verbatim>\<open>prop.name\<close> and \<open>fmt\<close> the text an
  f-string prints for a value.
\<close>

record ('o, 'p, 'v) QueryParser =
  parser_prop_handler :: "('o, 'p, 'v) PropHandler"
  sort_by :: "('p \<times> bool) list"
  group_by :: "'p option"
  group_mappings :: "(string \<times> ('o \<Rightarrow> bool)) list"

datatype 'o parser_output = Flat "'o list" | Grouped "(string \<times> 'o list) list"

definition QueryParser_init :: "('o, 'p, 'v) PropHandler \<Rightarrow> ('o, 'p, 'v) QueryParser" where
  "QueryParser_init ph =
     \<lparr>parser_prop_handler = ph, sort_by = [], group_by = None, group_mappings = []\<rparr>"

definition check_prop_valid :: "('o, 'p, 'v) QueryParser \<Rightarrow> 'p \<Rightarrow> exn + unit" where
  "check_prop_valid q prop =
     (if \<not> ph_check_supported (parser_prop_handler q) prop
      then Inl (QueryPropertyMappingError
        ''Error: failed to get property mapping, property is not supported by prop_handler'')
      else Inr ())"

text \<open>
  The loop of \<^verbatim>\<open>parse_sort_by\<close>; an unsupported property raises and leaves the
  specifications recorded until then.
\<close>

fun parse_sort_by_loop ::
  "('o, 'p, 'v) QueryParser \<Rightarrow> ('p \<times> bool) list \<Rightarrow> (exn + unit) \<times> ('o, 'p, 'v) QueryParser" where
  "parse_sort_by_loop q [] = (Inr (), q)"
| "parse_sort_by_loop q ((prop, order) # rest) =
     (case check_prop_valid q prop of
        Inl e \<Rightarrow> (Inl e, q)
      | Inr u \<Rightarrow> parse_sort_by_loop (q\<lparr>sort_by := AList.update prop order (sort_by q)\<rparr>) rest)"

definition parse_sort_by ::
  "('o, 'p, 'v) QueryParser \<Rightarrow> ('p \<times> bool) list \<Rightarrow> (exn + unit) \<times> ('o, 'p, 'v) QueryParser" where
  "parse_sort_by q sort_by_args = parse_sort_by_loop (q\<lparr>sort_by := []\<rparr>) sort_by_args"

text \<open>
  The loop of \<^verbatim>\<open>parse_group_by\<close> over the items of \<^verbatim>\<open>group_ranges\<close>: one membership
  test per name.
\<close>

fun group_ranges_loop ::
  "('o, 'p, 'v) PropHandler \<Rightarrow> 'p \<Rightarrow> (string \<times> 'v list) list \<Rightarrow>
   (string \<times> ('o \<Rightarrow> bool)) list \<Rightarrow> (string \<times> ('o \<Rightarrow> bool)) list" where
  "group_ranges_loop ph gb [] gm = gm"
| "group_ranges_loop ph gb ((name, prop_list) # rest) gm =
     group_ranges_loop ph gb rest
       (AList.update name (\<lambda>obj. ph_get_prop ph obj gb \<in> set prop_list) gm)"

definition parse_group_by ::
  "('o, 'p, 'v) QueryParser \<Rightarrow> 'p \<Rightarrow> (string \<times> 'v list) list option \<Rightarrow> bool \<Rightarrow>
   (exn + unit) \<times> ('o, 'p, 'v) QueryParser" where
  "parse_group_by q gb group_ranges include_missing =
     (case check_prop_valid q gb of
        Inl e \<Rightarrow> (Inl e, q)
      | Inr u \<Rightarrow>
          (let q1 = q\<lparr>group_by := Some gb\<rparr>
           in case group_ranges of
                None \<Rightarrow> (Inr (), q1)
              | Some ranges \<Rightarrow>
                  if ranges = [] then (Inr (), q1)
                  else
                    (let ph = parser_prop_handler q1;
                         all_prop_list = concat (map snd ranges);
                         gm = group_ranges_loop ph gb ranges (group_mappings q1)
                     in if include_missing
                        then (Inr (), q1\<lparr>group_mappings :=
                                AList.update ''ungrouped results''
                                  (\<lambda>obj. ph_get_prop ph obj gb \<notin> set all_prop_list) gm\<rparr>)
                        else (Inr (), q1\<lparr>group_mappings := gm\<rparr>))))"

text \<open>
  \<^verbatim>\<open>list.sort(key=..., reverse=...)\<close> is stable in both directions: with \<^verbatim>\<open>reverse\<close>
  the elements with equal keys keep their order.
\<close>

definition list_sort :: "('o \<Rightarrow> 'v::linorder) \<Rightarrow> bool \<Rightarrow> 'o list \<Rightarrow> 'o list" where
  "list_sort key reverse xs = (if reverse then rev (sort_key key (rev xs)) else sort_key key xs)"

text \<open>
  \<^verbatim>\<open>_run_sort\<close> sorts the list it is given in place, once per specification, last
  specification first, and returns that same list: the value is the content of the
  argument list after the call.
\<close>

definition run_sort ::
  "('o, 'p, 'v::linorder) PropHandler \<Rightarrow> 'o list \<Rightarrow> ('p \<times> bool) list \<Rightarrow> 'o list" where
  "run_sort ph obj_list sort_by_specs =
     fold (\<lambda>(sk, reverse) l. list_sort (\<lambda>obj. ph_get_prop ph obj sk) reverse l)
          (rev sort_by_specs) obj_list"

definition group_name :: "('p \<Rightarrow> string) \<Rightarrow> ('v \<Rightarrow> string) \<Rightarrow> 'p \<Rightarrow> 'v \<Rightarrow> string" where
  "group_name prop_name fmt gb val = prop_name gb @ '' with value '' @ fmt val"

definition build_unique_val_groups ::
  "('p \<Rightarrow> string) \<Rightarrow> ('v \<Rightarrow> string) \<Rightarrow> ('o, 'p, 'v) PropHandler \<Rightarrow> 'o list \<Rightarrow> 'p \<Rightarrow>
   (string \<times> ('o \<Rightarrow> bool)) list" where
  "build_unique_val_groups prop_name fmt ph obj_list group_by_prop =
     (let unique_vals =
            fold (\<lambda>obj d. AList.update (ph_get_prop ph obj group_by_prop) () d) obj_list []
      in fold (\<lambda>val gm.
                 AList.update (group_name prop_name fmt group_by_prop val)
                   (\<lambda>obj. ph_get_prop ph obj group_by_prop = val) gm)
              (map fst unique_vals) [])"

text \<open>
  \<^verbatim>\<open>_run_group_by\<close> builds a new dictionary, with a new list for each name.
\<close>

definition run_group_by ::
  "'o list \<Rightarrow> (string \<times> ('o \<Rightarrow> bool)) list \<Rightarrow> (string \<times> 'o list) list" where
  "run_group_by obj_list gm =
     fold (\<lambda>(name, map_func) d. AList.update name (filter map_func obj_list) d) gm []"

text \<open>
  \<^verbatim>\<open>run_parser\<close>. The model returns three things: the value returned, the content of the
  caller's list after the call (the sort works on that very list), and the parser as the
  call leaves it (the groups derived from the values are stored in the parser).
\<close>

definition run_parser ::
  "('p \<Rightarrow> string) \<Rightarrow> ('v \<Rightarrow> string) \<Rightarrow> ('o, 'p, 'v::linorder) QueryParser \<Rightarrow> 'o list \<Rightarrow>
   'o parser_output \<times> 'o list \<times> ('o, 'p, 'v) QueryParser" where
  "run_parser prop_name fmt q obj_list =
     (if obj_list = [] then (Flat obj_list, obj_list, q)
      else
        (let sorted_list =
               (if sort_by q \<noteq> [] then run_sort (parser_prop_handler q) obj_list (sort_by q)
                else obj_list)
         in case group_by q of
              None \<Rightarrow> (Flat sorted_list, sorted_list, q)
            | Some gb \<Rightarrow>
                (let q1 = (if group_mappings q = []
                           then q\<lparr>group_mappings :=
                                  build_unique_val_groups prop_name fmt (parser_prop_handler q)
                                    sorted_list gb\<rparr>
                           else q)
                 in (Grouped (run_group_by sorted_list (group_mappings q1)), sorted_list, q1))))"

section \<open>Notions used to state the properties\<close>

text \<open>
  The keyword arguments can be checked against the parameters when no
  positional-or-keyword parameter that they give is annotated with something that is no
  class: then \<^verbatim>\<open>isinstance\<close> is never called on such an annotation.
\<close>

fun checkable_annotation :: "annotation \<Rightarrow> bool" where
  "checkable_annotation (Ann_not_class a) = False"
| "checkable_annotation ann = True"

definition annotations_checkable :: "parameter list \<Rightarrow> filter_params \<Rightarrow> bool" where
  "annotations_checkable ps kw =
     list_all (\<lambda>p. param_kind p = POSITIONAL_OR_KEYWORD \<and> map_of kw (param_name p) \<noteq> None
                  \<longrightarrow> checkable_annotation (param_annotation p)) ps"

text \<open>
  The distinct elements of a list in the order in which they are first seen.
\<close>

fun first_seen :: "'a list \<Rightarrow> 'a list" where
  "first_seen [] = []"
| "first_seen (x # xs) = x # first_seen (removeAll x xs)"

text \<open>
  The order that a sequence of sort specifications asks for: the first specification
  decides, by its property and its direction; records equal on it are ordered by the
  specifications after it.
\<close>

fun spec_order :: "('o \<Rightarrow> 'p \<Rightarrow> 'v::linorder) \<Rightarrow> ('p \<times> bool) list \<Rightarrow> 'o \<Rightarrow> 'o \<Rightarrow> bool" where
  "spec_order gp [] x y = True"
| "spec_order gp ((p, descending) # specs) x y =
     (if gp x p = gp y p then spec_order gp specs x y
      else if descending then gp y p < gp x p
      else gp x p < gp y p)"

section \<open>Example configuration\<close>

text \<open>
  A small configuration on which the theorems below are instantiated: two filter
  functions, two client-side handlers over the server properties with presets named by
  strings, a property handler built on the accessor table of \<^verbatim>\<open>ServerProperties\<close>, a
  server-side handler without any mapping, and a builder over them.
\<close>

definition ex_equal_to :: filter_func where
  "ex_equal_to =
     \<lparr>signature =
        [\<lparr>param_name = ''prop'', param_kind = POSITIONAL_OR_KEYWORD,
          param_default = None, param_annotation = Ann_Any\<rparr>,
         \<lparr>param_name = ''value'', param_kind = POSITIONAL_OR_KEYWORD,
          param_default = None, param_annotation = Ann_class C_str\<rparr>],
      call = (\<lambda>prop kw. case map_of kw ''value'' of
                None \<Rightarrow> Inl TypeError | Some v \<Rightarrow> Inr (prop = v))\<rparr>"

definition ex_keyword_only :: filter_func where
  "ex_keyword_only =
     \<lparr>signature =
        [\<lparr>param_name = ''prop'', param_kind = POSITIONAL_OR_KEYWORD,
          param_default = None, param_annotation = Ann_Any\<rparr>,
         \<lparr>param_name = ''value'', param_kind = KEYWORD_ONLY,
          param_default = None, param_annotation = Ann_class C_str\<rparr>],
      call = (\<lambda>prop kw. case map_of kw ''value'' of
                None \<Rightarrow> Inl TypeError | Some v \<Rightarrow> Inr (prop = v))\<rparr>"

definition ex_any_in :: filter_func where
  "ex_any_in =
     \<lparr>signature =
        [\<lparr>param_name = ''prop'', param_kind = POSITIONAL_OR_KEYWORD,
          param_default = None, param_annotation = Ann_Any\<rparr>,
         \<lparr>param_name = ''values'', param_kind = POSITIONAL_OR_KEYWORD,
          param_default = None, param_annotation = Ann_not_class ''typing.List[str]''\<rparr>],
      call = (\<lambda>prop kw. case map_of kw ''values'' of
                Some (PList vs) \<Rightarrow> Inr (prop \<in> set vs) | _ \<Rightarrow> Inl TypeError)\<rparr>"

definition ex_list_handler :: "(string, ServerProperties) ClientSideHandler" where
  "ex_list_handler =
     \<lparr>filter_function_mappings = [(''ANY_IN'', [Star])],
      filter_functions = [(''ANY_IN'', ex_any_in)]\<rparr>"

definition ex_string_handler :: "(string, ServerProperties) ClientSideHandler" where
  "ex_string_handler =
     \<lparr>filter_function_mappings =
        [(''EQUAL_TO'', [Prop SERVER_NAME]), (''MATCHES_REGEX'', [Prop SERVER_NAME])],
      filter_functions = [(''EQUAL_TO'', ex_equal_to), (''MATCHES_REGEX'', ex_equal_to)]\<rparr>"

definition ex_generic_handler :: "(string, ServerProperties) ClientSideHandler" where
  "ex_generic_handler =
     \<lparr>filter_function_mappings = [(''EQUAL_TO'', [Star]), (''SAME_AS'', [Star])],
      filter_functions = [(''EQUAL_TO'', ex_equal_to), (''SAME_AS'', ex_keyword_only)]\<rparr>"

definition ex_prop_handler :: "(pyval, ServerProperties, pyval) PropHandler" where
  "ex_prop_handler =
     \<lparr>ph_check_supported = (\<lambda>p. True),
      ph_get_prop = (\<lambda>obj p. case map_of mapping p of
                       None \<Rightarrow> PStr ''Not Found''
                     | Some f \<Rightarrow> (case f obj of Inl e \<Rightarrow> PStr ''Not Found'' | Inr v \<Rightarrow> v)),
      ph_get_prop_func = (\<lambda>p. case get_prop_func enum_contains_3_8_to_3_11 (ServerProp p) of
                            Inl e \<Rightarrow> None | Inr f \<Rightarrow> Some f)\<rparr>"

definition ex_builder :: "(string, ServerProperties) QueryBuilder" where
  "ex_builder =
     QueryBuilder_init ex_prop_handler [ex_string_handler, ex_generic_handler]
       (Some (\<lambda>preset prop params. Inr None))"

text \<open>
  Example records for the parser: pairs, with one property for each component; and how
  Python prints an integer.
\<close>

datatype ex_prop = Prop_A | Prop_B

fun ex_prop_name :: "ex_prop \<Rightarrow> string" where
  "ex_prop_name Prop_A = ''PROP_A''"
| "ex_prop_name Prop_B = ''PROP_B''"

definition ex_pair_handler :: "('v \<times> 'v, ex_prop, 'v) PropHandler" where
  "ex_pair_handler =
     \<lparr>ph_check_supported = (\<lambda>p. True),
      ph_get_prop = (\<lambda>obj p. case p of Prop_A \<Rightarrow> fst obj | Prop_B \<Rightarrow> snd obj),
      ph_get_prop_func = (\<lambda>p. Some (\<lambda>obj. Inr (case p of Prop_A \<Rightarrow> fst obj | Prop_B \<Rightarrow> snd obj)))\<rparr>"

fun nat_str :: "nat \<Rightarrow> string" where
  "nat_str n = (if n < 10 then [''0123456789'' ! n]
                else nat_str (n div 10) @ [''0123456789'' ! (n mod 10)])"

definition int_str :: "int \<Rightarrow> string" where
  "int_str i = (if i < 0 then ''-'' @ nat_str (nat (- i)) else nat_str (nat i))"

definition ex_parser :: "(int \<times> int, ex_prop, int) QueryParser" where
  "ex_parser = QueryParser_init ex_pair_handler"

text \<open>How Python prints an optional string: \<^verbatim>\<open>None\<close>, or the string itself.\<close>

definition opt_str :: "string option \<Rightarrow> string" where
  "opt_str v = (case v of None \<Rightarrow> ''None'' | Some s \<Rightarrow> s)"

text \<open>A parser over pairs of optional strings.\<close>

definition ex_opt_parser :: "(string option \<times> string option, ex_prop, string option) QueryParser" where
  "ex_opt_parser = QueryParser_init ex_pair_handler"

section \<open>Properties\<close>

subsection \<open>The accessor table\<close>

lemma members_all: "p \<in> set ServerProperties_members"
  by (cases p) (simp_all add: ServerProperties_members_def)

lemma mapping_total: "\<exists>f. map_of mapping p = Some f"
  by (cases p) (simp_all add: mapping_def)

lemma table_exhaustive:
  "list_all (\<lambda>i. i \<in> set (map fst mapping)) ServerProperties_members"
  by (simp add: ServerProperties_members_def mapping_def)



text \<open>
  Claim C8 as worded fails for an argument that is no enumeration member: on Python 3.8
  to 3.11 the membership test itself raises \<^verbatim>\<open>TypeError\<close> for a string, for
  \<^verbatim>\<open>None\<close> and for an integer, and that is what \<^verbatim>\<open>get_prop_func\<close> raises.
\<close>

theorem get_prop_func_not_an_enum_member:
  "get_prop_func enum_contains_3_8_to_3_11 (NotEnum (PStr ''USER_ID'')) = Inl TypeError
   \<and> get_prop_func enum_contains_3_8_to_3_11 (NotEnum PNone) = Inl TypeError
   \<and> get_prop_func enum_contains_3_8_to_3_11 (NotEnum (PInt 1)) = Inl TypeError"
  using table_exhaustive by (simp add: get_prop_func_def enum_contains_3_8_to_3_11_def)

subsection \<open>The example configuration\<close>

lemma check_supported_known: "check_supported h preset prop \<Longrightarrow> preset_known h preset"
  by (auto simp: check_supported_def split: if_splits)

lemma ex_get_prop_func [simp]:
  "get_prop_func ec (ServerProp USER_ID) = Inr (\<lambda>a. getitem a ''user_id'')"
  "get_prop_func ec (ServerProp SERVER_NAME) = Inr (\<lambda>a. getitem a ''name'')"
  using table_exhaustive by (simp_all add: get_prop_func_def) (simp_all add: mapping_def)

lemma ex_supported [simp]:
  "check_supported ex_generic_handler ''EQUAL_TO'' p"
  "check_supported ex_generic_handler ''SAME_AS'' p"
  "check_supported ex_string_handler ''EQUAL_TO'' SERVER_NAME"
  "\<not> check_supported ex_string_handler ''EQUAL_TO'' USER_ID"
  "\<not> check_supported ex_string_handler ''MATCHES_REGEX'' USER_ID"
  "\<not> check_supported ex_generic_handler ''MATCHES_REGEX'' p"
  "\<not> check_supported ex_generic_handler ''OLDER_THAN'' p"
  "\<not> check_supported ex_string_handler ''OLDER_THAN'' p"
  by (simp_all add: check_supported_def preset_known_def ex_generic_handler_def
        ex_string_handler_def)

lemma ex_known [simp]:
  "preset_known ex_string_handler ''MATCHES_REGEX''"
  "\<not> preset_known ex_generic_handler ''OLDER_THAN''"
  "\<not> preset_known ex_string_handler ''OLDER_THAN''"
  by (simp_all add: preset_known_def ex_generic_handler_def ex_string_handler_def)

lemma ex_builder_fields [simp]:
  "client_side_filter ex_builder = None"
  "client_side_handlers ex_builder = [ex_string_handler, ex_generic_handler]"
  "ph_get_prop_func (prop_handler ex_builder) SERVER_NAME = Some (\<lambda>a. getitem a ''name'')"
  "ph_get_prop_func (prop_handler ex_builder) USER_ID = Some (\<lambda>a. getitem a ''user_id'')"
  "server_side_handler ex_builder = Some (\<lambda>preset prop params. Inr None)"
  by (simp_all add: ex_builder_def QueryBuilder_init_def ex_prop_handler_def)

lemma ex_check_equal_to [simp]:
  "check_filter_func set_repr ex_equal_to (Some [(''value'', PStr v)]) = Inr (True, [])"
  by (simp add: check_filter_func_def ex_equal_to_def isinstance_def)

lemma ex_filter_functions [simp]:
  "map_of (filter_functions ex_string_handler) ''EQUAL_TO'' = Some ex_equal_to"
  "map_of (filter_functions ex_generic_handler) ''EQUAL_TO'' = Some ex_equal_to"
  "map_of (filter_functions ex_generic_handler) ''SAME_AS'' = Some ex_keyword_only"
  by (simp_all add: ex_string_handler_def ex_generic_handler_def)

lemma ex_first_supported [simp]:
  "first_supported [ex_string_handler, ex_generic_handler] ''EQUAL_TO'' SERVER_NAME
   = Some ex_string_handler"
  "first_supported [ex_string_handler, ex_generic_handler] ''EQUAL_TO'' USER_ID
   = Some ex_generic_handler"
  by simp_all

lemma ex_parse_where_ok:
  "fst (parse_where set_repr (\<lambda>s. s) ServerProperties_name ex_builder ''EQUAL_TO'' SERVER_NAME
          (Some [(''value'', PStr ''vm-1'')])) = Inr ()"
  by (simp add: parse_where_def get_preset_handler_def get_filter_func_def list_ex_iff
        check_supported_known [OF ex_supported(3)])

subsection \<open>The builder\<close>

lemma parse_where_success_sets_filter:
  assumes "parse_where st pn qn b preset prop kw = (Inr (), b')"
  shows "client_side_filter b' \<noteq> None"
  using assms
  by (auto simp: parse_where_def Let_def split: if_splits option.splits sum.splits)

text \<open>
  Claim C3. On a builder on which \<^verbatim>\<open>parse_where\<close> has completed, every further call of
  \<^verbatim>\<open>parse_where\<close>, whatever its arguments, raises \<^verbatim>\<open>ParseQueryError\<close> and leaves the
  builder as it is.
\<close>

theorem parse_where_twice:
  assumes "parse_where st pn qn b preset prop kw = (Inr (), b')"
  shows "parse_where st' pn' qn' b' preset' prp' kw'
         = (Inl (ParseQueryError ''Error: Already set a query preset''), b')"
  using parse_where_success_sets_filter[OF assms]
  by (simp add: parse_where_def)

theorem parse_where_twice_witness:
  "fst (parse_where set_repr (\<lambda>s. s) ServerProperties_name ex_builder ''EQUAL_TO'' SERVER_NAME
          (Some [(''value'', PStr ''vm-1'')])) = Inr ()
   \<and> fst (parse_where set_repr (\<lambda>s. s) ServerProperties_name
            (snd (parse_where set_repr (\<lambda>s. s) ServerProperties_name ex_builder ''EQUAL_TO'' SERVER_NAME
                   (Some [(''value'', PStr ''vm-1'')])))
            ''EQUAL_TO'' USER_ID (Some [(''value'', PStr ''user-1'')]))
       = Inl (ParseQueryError ''Error: Already set a query preset'')"
proof -
  let ?r = "parse_where set_repr (\<lambda>s. s) ServerProperties_name ex_builder ''EQUAL_TO'' SERVER_NAME
              (Some [(''value'', PStr ''vm-1'')])"
  have ok: "?r = (Inr (), snd ?r)"
    using ex_parse_where_ok by (metis prod.collapse)
  show ?thesis
    using parse_where_twice [OF ok, where st' = set_repr and pn' = "\<lambda>s. s"
        and qn' = ServerProperties_name and preset' = "''EQUAL_TO''" and prp' = USER_ID
        and kw' = "Some [(''value'', PStr ''user-1'')]"] ex_parse_where_ok
    by simp
qed

lemma first_supported_None_iff:
  "first_supported hs preset prop = None \<longleftrightarrow> (\<forall>h \<in> set hs. \<not> check_supported h preset prop)"
  by (induction hs) auto

lemma first_supported_first:
  assumes "i < length hs" "check_supported (hs ! i) preset prop"
    "\<forall>j<i. \<not> check_supported (hs ! j) preset prop"
  shows "first_supported hs preset prop = Some (hs ! i)"
  using assms
proof (induction hs arbitrary: i)
  case Nil
  then show ?case by simp
next
  case (Cons h hs)
  show ?case
  proof (cases i)
    case 0
    with Cons.prems show ?thesis by simp
  next
    case (Suc k)
    from Cons.prems(3) Suc have "\<not> check_supported h preset prop" by auto
    moreover have "first_supported hs preset prop = Some (hs ! k)"
      using Cons.prems Suc by (intro Cons.IH) auto
    ultimately show ?thesis using Suc by simp
  qed
qed

lemma msgs_distinct: "no_handler_for_preset_msg pn qn \<noteq> no_handler_for_pair_msg pn"
  by (simp add: no_handler_for_preset_msg_def no_handler_for_pair_msg_def)

text \<open>
  Claim C4. On a builder without filter and for a property with an accessor,
  \<^verbatim>\<open>parse_where\<close> raises \<^verbatim>\<open>QueryPresetMappingError\<close> with the first message when no
  handler knows the preset, and with the second, different message when some handler
  knows the preset and none supports the pair; otherwise the handler chosen is the one at
  the least index whose \<^verbatim>\<open>check_supported\<close> holds, and it is that handler's
  \<^verbatim>\<open>get_filter_func\<close> whose error is raised or whose predicate is stored.
\<close>

theorem get_preset_handler_first_match:
  assumes "client_side_filter b = None"
    and "ph_get_prop_func (prop_handler b) prp = Some pf"
  shows
    "((\<forall>h \<in> set (client_side_handlers b). \<not> preset_known h preset) \<longrightarrow>
        parse_where st pn qn b preset prp kw
        = (Inl (QueryPresetMappingError (no_handler_for_preset_msg (pn preset) (qn prp))), b))
   \<and> ((\<exists>h \<in> set (client_side_handlers b). preset_known h preset) \<and>
      (\<forall>h \<in> set (client_side_handlers b). \<not> check_supported h preset prp) \<longrightarrow>
        parse_where st pn qn b preset prp kw
        = (Inl (QueryPresetMappingError (no_handler_for_pair_msg (pn preset))), b))
   \<and> (i < length (client_side_handlers b) \<and>
       check_supported (client_side_handlers b ! i) preset prp \<and>
       (\<forall>j<i. \<not> check_supported (client_side_handlers b ! j) preset prp) \<longrightarrow>
        get_preset_handler pn qn b preset prp = Inr (client_side_handlers b ! i) \<and>
        (case get_filter_func st pn qn (client_side_handlers b ! i) preset prp pf kw of
           Inl e \<Rightarrow> parse_where st pn qn b preset prp kw = (Inl e, b)
         | Inr f \<Rightarrow> client_side_filter (snd (parse_where st pn qn b preset prp kw)) = Some f))
   \<and> no_handler_for_preset_msg (pn preset) (qn prp) \<noteq> no_handler_for_pair_msg (pn preset)"
proof (intro conjI impI)
  assume "\<forall>h \<in> set (client_side_handlers b). \<not> preset_known h preset"
  then have "\<not> list_ex (\<lambda>i. preset_known i preset) (client_side_handlers b)"
    by (simp add: list_ex_iff)
  then show "parse_where st pn qn b preset prp kw
        = (Inl (QueryPresetMappingError (no_handler_for_preset_msg (pn preset) (qn prp))), b)"
    using assms by (simp add: parse_where_def get_preset_handler_def)
next
  assume a: "(\<exists>h \<in> set (client_side_handlers b). preset_known h preset) \<and>
      (\<forall>h \<in> set (client_side_handlers b). \<not> check_supported h preset prp)"
  then have "list_ex (\<lambda>i. preset_known i preset) (client_side_handlers b)"
    by (simp add: list_ex_iff)
  moreover from a have "first_supported (client_side_handlers b) preset prp = None"
    by (simp add: first_supported_None_iff)
  ultimately show "parse_where st pn qn b preset prp kw
        = (Inl (QueryPresetMappingError (no_handler_for_pair_msg (pn preset))), b)"
    using assms by (simp add: parse_where_def get_preset_handler_def)
next
  assume a: "i < length (client_side_handlers b) \<and>
       check_supported (client_side_handlers b ! i) preset prp \<and>
       (\<forall>j<i. \<not> check_supported (client_side_handlers b ! j) preset prp)"
  then have fs: "first_supported (client_side_handlers b) preset prp
                 = Some (client_side_handlers b ! i)"
    by (intro first_supported_first) auto
  from a have "preset_known (client_side_handlers b ! i) preset"
    by (auto dest: check_supported_known)
  with a have "list_ex (\<lambda>i. preset_known i preset) (client_side_handlers b)"
    unfolding list_ex_iff using nth_mem by blast
  with fs show g: "get_preset_handler pn qn b preset prp = Inr (client_side_handlers b ! i)"
    by (simp add: get_preset_handler_def)
  show "case get_filter_func st pn qn (client_side_handlers b ! i) preset prp pf kw of
           Inl e \<Rightarrow> parse_where st pn qn b preset prp kw = (Inl e, b)
         | Inr f \<Rightarrow> client_side_filter (snd (parse_where st pn qn b preset prp kw)) = Some f"
    using assms g
    by (auto simp: parse_where_def Let_def split: sum.splits option.splits)
next
  show "no_handler_for_preset_msg (pn preset) (qn prp) \<noteq> no_handler_for_pair_msg (pn preset)"
    by (rule msgs_distinct)
qed

theorem get_preset_handler_first_match_witness:
  "client_side_filter ex_builder = None
   \<and> ph_get_prop_func (prop_handler ex_builder) SERVER_NAME = Some (\<lambda>a. getitem a ''name'')
   \<and> client_side_handlers ex_builder = [ex_string_handler, ex_generic_handler]
   \<and> \<not> preset_known ex_string_handler ''OLDER_THAN''
   \<and> \<not> preset_known ex_generic_handler ''OLDER_THAN''
   \<and> parse_where set_repr (\<lambda>s. s) ServerProperties_name ex_builder ''OLDER_THAN'' SERVER_NAME None
      = (Inl (QueryPresetMappingError (no_handler_for_preset_msg ''OLDER_THAN'' ''SERVER_NAME'')),
         ex_builder)
   \<and> (\<exists>h \<in> set (client_side_handlers ex_builder). preset_known h ''MATCHES_REGEX'')
   \<and> \<not> check_supported ex_string_handler ''MATCHES_REGEX'' USER_ID
   \<and> \<not> check_supported ex_generic_handler ''MATCHES_REGEX'' USER_ID
   \<and> parse_where set_repr (\<lambda>s. s) ServerProperties_name ex_builder ''MATCHES_REGEX'' USER_ID None
      = (Inl (QueryPresetMappingError (no_handler_for_pair_msg ''MATCHES_REGEX'')), ex_builder)
   \<and> check_supported (client_side_handlers ex_builder ! 0) ''EQUAL_TO'' SERVER_NAME
   \<and> check_supported (client_side_handlers ex_builder ! 1) ''EQUAL_TO'' SERVER_NAME
   \<and> get_preset_handler (\<lambda>s. s) ServerProperties_name ex_builder ''EQUAL_TO'' SERVER_NAME
      = Inr ex_string_handler
   \<and> \<not> check_supported (client_side_handlers ex_builder ! 0) ''EQUAL_TO'' USER_ID
   \<and> get_preset_handler (\<lambda>s. s) ServerProperties_name ex_builder ''EQUAL_TO'' USER_ID
      = Inr ex_generic_handler"
  using get_preset_handler_first_match [where b = ex_builder and prp = SERVER_NAME
      and pf = "\<lambda>a. getitem a ''name''" and preset = "''OLDER_THAN''" and pn = "\<lambda>s. s"
      and qn = ServerProperties_name and kw = None and i = 0]
    get_preset_handler_first_match [where b = ex_builder and prp = USER_ID
      and pf = "\<lambda>a. getitem a ''user_id''" and preset = "''MATCHES_REGEX''" and pn = "\<lambda>s. s"
      and qn = ServerProperties_name and kw = None and i = 0]
    get_preset_handler_first_match [where b = ex_builder and prp = SERVER_NAME
      and pf = "\<lambda>a. getitem a ''name''" and preset = "''EQUAL_TO''" and pn = "\<lambda>s. s"
      and qn = ServerProperties_name and kw = None and i = 0]
    get_preset_handler_first_match [where b = ex_builder and prp = USER_ID
      and pf = "\<lambda>a. getitem a ''user_id''" and preset = "''EQUAL_TO''" and pn = "\<lambda>s. s"
      and qn = ServerProperties_name and kw = None and i = 1]
  by simp

subsection \<open>A record without the property\<close>

lemma getitem_not_attribute_error: "getitem v k \<noteq> Inl AttributeError"
  by (cases v) (simp_all split: option.splits)

lemma server_accessors_never_attribute_error:
  assumes "map_of mapping p = Some f"
  shows "f a \<noteq> Inl AttributeError"
  using assms
  by (cases p) (auto simp: mapping_def getitem_not_attribute_error split: sum.splits)

lemma filter_func_wrapper_attribute_error:
  "pf item = Inl AttributeError \<Longrightarrow> filter_func_wrapper item ff pf kw = Inr False"
  by (simp add: filter_func_wrapper_def)

text \<open>
  Claim C1, evaluated on the code. The predicate that \<^verbatim>\<open>get_filter_func\<close> builds for the
  wildcard preset \<^verbatim>\<open>EQUAL_TO\<close>, the property \<^verbatim>\<open>USER_ID\<close> with its accessor from
  \<^verbatim>\<open>ServerProperties.get_prop_func\<close>, and valid keyword arguments, applied to a server
  record without the entry \<^verbatim>\<open>user_id\<close>, does not return false: the accessor raises
  \<^verbatim>\<open>KeyError\<close>, which the wrapper does not catch and which therefore reaches the caller.
\<close>

theorem missing_property_raises:
  "\<exists>pred. get_filter_func set_repr (\<lambda>s. s) ServerProperties_name ex_generic_handler ''EQUAL_TO'' USER_ID
             (\<lambda>a. getitem a ''user_id'') (Some [(''value'', PStr ''user-1'')]) = Inr pred
         \<and> get_prop_func ec (ServerProp USER_ID) = Inr (\<lambda>a. getitem a ''user_id'')
         \<and> pred (PDict [(''id'', PStr ''server-1'')]) = Inl (KeyError (PStr ''user_id''))"
proof -
  have ff: "map_of (filter_functions ex_generic_handler) ''EQUAL_TO'' = Some ex_equal_to"
    by (simp add: ex_generic_handler_def)
  have ck: "check_filter_func set_repr ex_equal_to (Some [(''value'', PStr ''user-1'')]) = Inr (True, [])"
    by (simp add: check_filter_func_def ex_equal_to_def isinstance_def)
  show ?thesis
    by (simp add: get_filter_func_def ff ck filter_func_wrapper_def)
qed

subsection \<open>Validation of keyword arguments\<close>

lemma check_params_append:
  "check_params (ps1 @ ps2) kw =
     (case check_params ps1 kw of
        Inl e \<Rightarrow> Inl e
      | Inr (Some r) \<Rightarrow> Inr (Some r)
      | Inr None \<Rightarrow> check_params ps2 kw)"
  by (induction ps1) (auto split: option.splits annotation.splits sum.splits)

lemma check_params_checkable:
  assumes "annotations_checkable ps kw"
  shows "\<exists>r. check_params ps kw = Inr r"
  using assms
  by (induction ps)
    (auto simp: annotations_checkable_def split: option.splits annotation.splits)

lemma check_params_missing:
  assumes "annotations_checkable ps kw"
    "p \<in> set ps" "param_kind p = POSITIONAL_OR_KEYWORD" "param_default p = None"
    "map_of kw (param_name p) = None"
  shows "\<exists>r. check_params ps kw = Inr (Some r)"
  using assms
  by (induction ps)
    (auto simp: annotations_checkable_def split: option.splits annotation.splits)

lemma check_params_wrong_type:
  assumes "annotations_checkable ps kw"
    "p \<in> set ps" "param_kind p = POSITIONAL_OR_KEYWORD"
    "param_annotation p = Ann_class ty" "map_of kw (param_name p) = Some v"
    "\<not> isinstance v ty"
  shows "\<exists>r. check_params ps kw = Inr (Some r)"
  using assms
  by (induction ps)
    (auto simp: annotations_checkable_def split: option.splits annotation.splits)

lemma check_params_first_missing:
  assumes "check_params ps1 kw = Inr None" "param_kind p = POSITIONAL_OR_KEYWORD"
    "param_default p = None" "map_of kw (param_name p) = None"
  shows "check_params (ps1 @ p # ps2) kw
         = Inr (Some (param_name p @ '' expected but not given''))"
  using assms by (simp add: check_params_append)

lemma check_params_first_not_class:
  assumes "check_params ps1 kw = Inr None" "param_kind p = POSITIONAL_OR_KEYWORD"
    "map_of kw (param_name p) = Some v" "param_annotation p = Ann_not_class a"
  shows "check_params (ps1 @ p # ps2) kw = Inl TypeError"
  using assms by (simp add: check_params_append)

lemma check_params_only_positional_or_keyword:
  "check_params (filter (\<lambda>p. param_kind p = POSITIONAL_OR_KEYWORD) ps) kw = check_params ps kw"
  by (induction ps) (auto split: option.splits annotation.splits)

lemma check_params_none_positional_or_keyword:
  assumes "\<forall>p \<in> set ps. param_kind p \<noteq> POSITIONAL_OR_KEYWORD"
  shows "check_params ps kw = Inr None"
  using assms by (induction ps) auto

lemma check_filter_func_invalid:
  assumes "check_params (tl (signature ff)) kw = Inr (Some r)"
  shows "check_filter_func st ff (Some kw) = Inr (False, r)"
  using assms by (simp add: check_filter_func_def)

lemma check_filter_func_type_error:
  assumes "check_params (tl (signature ff)) kw = Inl e"
  shows "check_filter_func st ff (Some kw) = Inl e"
  using assms by (simp add: check_filter_func_def)

lemma check_filter_func_unexpected:
  assumes "annotations_checkable (tl (signature ff)) kw"
    "\<not> list_ex (\<lambda>param. param_kind param = VAR_POSITIONAL) (tl (signature ff))"
    "\<not> list_ex (\<lambda>param. param_kind param = VAR_KEYWORD) (tl (signature ff))"
    "k \<in> fst ` set kw" "k \<notin> param_name ` set (tl (signature ff))"
  shows "\<exists>r. check_filter_func st ff (Some kw) = Inr (False, r)"
proof -
  obtain res where res: "check_params (tl (signature ff)) kw = Inr res"
    using check_params_checkable [OF assms(1)] by blast
  show ?thesis
  proof (cases res)
    case (Some r)
    with res show ?thesis using check_filter_func_invalid by blast
  next
    case None
    have "k \<in> set (filter (\<lambda>k. k \<notin> set (map param_name (tl (signature ff))))
                      (remdups (map fst kw)))"
      using assms(4,5) by auto
    then have "filter (\<lambda>k. k \<notin> set (map param_name (tl (signature ff))))
                      (remdups (map fst kw)) \<noteq> []"
      by (metis empty_iff list.set(1))
    with None res assms(2,3) show ?thesis
      by (simp add: check_filter_func_def Let_def)
  qed
qed

lemma check_filter_func_all_expected:
  assumes "check_params (tl (signature ff)) kw = Inr None"
    "fst ` set kw \<subseteq> param_name ` set (tl (signature ff))"
  shows "check_filter_func st ff (Some kw) = Inr (True, [])"
proof -
  have "filter (\<lambda>k. k \<notin> set (map param_name (tl (signature ff)))) (remdups (map fst kw)) = []"
    using assms(2) by (auto simp: filter_empty_conv)
  with assms(1) show ?thesis
    by (simp add: check_filter_func_def Let_def)
qed

lemma get_filter_func_invalid:
  assumes "check_supported h preset prp" "map_of (filter_functions h) preset = Some ff"
    "check_filter_func st ff (Some kw) = Inr (False, r)"
  shows "get_filter_func st pn qn h preset prp pf (Some kw)
         = Inl (QueryPresetMappingError (preset_argument_error_msg (pn preset) (qn prp) r))"
  using assms by (simp add: get_filter_func_def)

lemma get_filter_func_type_error:
  assumes "check_supported h preset prp" "map_of (filter_functions h) preset = Some ff"
    "check_filter_func st ff (Some kw) = Inl e"
  shows "get_filter_func st pn qn h preset prp pf (Some kw) = Inl e"
  using assms by (simp add: get_filter_func_def)

lemma get_filter_func_valid:
  assumes "check_supported h preset prp" "map_of (filter_functions h) preset = Some ff"
    "check_filter_func st ff (Some kw) = Inr (True, r)"
  shows "\<exists>pred. get_filter_func st pn qn h preset prp pf (Some kw) = Inr pred"
  using assms by (simp add: get_filter_func_def)


lemma ex_equal_to_params [simp]:
  "tl (signature ex_equal_to) =
     [\<lparr>param_name = ''value'', param_kind = POSITIONAL_OR_KEYWORD,
       param_default = None, param_annotation = Ann_class C_str\<rparr>]"
  by (simp add: ex_equal_to_def)

lemma ex_keyword_only_params [simp]:
  "tl (signature ex_keyword_only) =
     [\<lparr>param_name = ''value'', param_kind = KEYWORD_ONLY,
       param_default = None, param_annotation = Ann_class C_str\<rparr>]"
  by (simp add: ex_keyword_only_def)

lemma ex_any_in_params [simp]:
  "tl (signature ex_any_in) =
     [\<lparr>param_name = ''values'', param_kind = POSITIONAL_OR_KEYWORD,
       param_default = None, param_annotation = Ann_not_class ''typing.List[str]''\<rparr>]"
  by (simp add: ex_any_in_def)

lemma ex_list_handler_facts [simp]:
  "check_supported ex_list_handler ''ANY_IN'' p"
  "map_of (filter_functions ex_list_handler) ''ANY_IN'' = Some ex_any_in"
  by (simp_all add: check_supported_def preset_known_def ex_list_handler_def)



subsection \<open>Sorting\<close>

lemma mset_list_sort: "mset (list_sort k r xs) = mset xs"
  by (simp add: list_sort_def)

lemma list_sort_stable:
  "filter (\<lambda>y. k y = c) (list_sort k r xs) = filter (\<lambda>y. k y = c) xs"
  by (simp add: list_sort_def sort_key_stable flip: rev_filter)

lemma list_sort_stable_pred:
  assumes "\<And>y. P y \<Longrightarrow> k y = c"
  shows "filter P (list_sort k r xs) = filter P xs"
proof -
  have "filter P zs = filter P (filter (\<lambda>y. k y = c) zs)" for zs
    using assms by (induction zs) auto
  then show ?thesis by (metis list_sort_stable)
qed

lemma sorted_wrt_insort_key:
  assumes "sorted_wrt (\<lambda>x y. k x < k y \<or> (k x = k y \<and> R x y)) zs"
    and "\<forall>z \<in> set zs. R y z"
  shows "sorted_wrt (\<lambda>x y. k x < k y \<or> (k x = k y \<and> R x y)) (insort_key k y zs)"
  using assms
proof (induction zs)
  case Nil
  then show ?case by simp
next
  case (Cons z zs)
  show ?case
  proof (cases "k y \<le> k z")
    case True
    have "k y < k z' \<or> (k y = k z' \<and> R y z')" if "z' \<in> set (z # zs)" for z'
    proof -
      have "k z \<le> k z'" using Cons.prems(1) that by auto
      with True have "k y \<le> k z'" by simp
      moreover have "R y z'" using Cons.prems(2) that by auto
      ultimately show ?thesis by auto
    qed
    with True Cons.prems(1) show ?thesis by simp
  next
    case False
    then have "k z < k y" by simp
    moreover have "sorted_wrt (\<lambda>x y. k x < k y \<or> (k x = k y \<and> R x y)) (insort_key k y zs)"
      using Cons by simp
    ultimately show ?thesis using False Cons.prems(1) by (auto simp: set_insort_key)
  qed
qed

lemma sorted_wrt_sort_key:
  assumes "sorted_wrt R xs"
  shows "sorted_wrt (\<lambda>x y. k x < k y \<or> (k x = k y \<and> R x y)) (sort_key k xs)"
  using assms
proof (induction xs)
  case Nil
  then show ?case by simp
next
  case (Cons x xs)
  then have "\<forall>z \<in> set (sort_key k xs). R x z" by simp
  with Cons show ?case by (simp add: sorted_wrt_insort_key)
qed

lemma sorted_wrt_list_sort:
  assumes "sorted_wrt R xs"
  shows "sorted_wrt (\<lambda>x y. if k x = k y then R x y else if r then k y < k x else k x < k y)
           (list_sort k r xs)"
proof (cases r)
  case False
  then have eq: "list_sort k r xs = sort_key k xs"
    by (simp add: list_sort_def)
  have asc: "sorted_wrt (\<lambda>x y. k x < k y \<or> (k x = k y \<and> R x y)) (sort_key k xs)"
    using assms by (rule sorted_wrt_sort_key)
  show ?thesis
    unfolding eq by (rule sorted_wrt_mono_rel [OF _ asc]) (use False in auto)
next
  case True
  then have eq: "list_sort k r xs = rev (sort_key k (rev xs))"
    by (simp add: list_sort_def)
  have "sorted_wrt (\<lambda>x y. R y x) (rev xs)"
    using assms by (simp add: sorted_wrt_rev)
  then have asc: "sorted_wrt (\<lambda>x y. k x < k y \<or> (k x = k y \<and> R y x)) (sort_key k (rev xs))"
    by (rule sorted_wrt_sort_key)
  show ?thesis
    unfolding eq sorted_wrt_rev
    by (rule sorted_wrt_mono_rel [OF _ asc]) (use True in auto)
qed

lemma run_sort_Nil: "run_sort ph xs [] = xs"
  by (simp add: run_sort_def)

lemma run_sort_Cons:
  "run_sort ph xs ((p, r) # specs)
   = list_sort (\<lambda>obj. ph_get_prop ph obj p) r (run_sort ph xs specs)"
  by (simp add: run_sort_def)

lemma mset_run_sort: "mset (run_sort ph xs specs) = mset xs"
  by (induction specs) (auto simp: run_sort_Nil run_sort_Cons mset_list_sort)

lemma sorted_wrt_run_sort:
  "sorted_wrt (spec_order (ph_get_prop ph) specs) (run_sort ph xs specs)"
proof (induction specs)
  case Nil
  then show ?case by (simp add: run_sort_Nil sorted_wrt_iff_nth_less)
next
  case (Cons s specs)
  obtain p r where s: "s = (p, r)" by (cases s)
  have "sorted_wrt (\<lambda>x y. if ph_get_prop ph x p = ph_get_prop ph y p
                          then spec_order (ph_get_prop ph) specs x y
                          else if r then ph_get_prop ph y p < ph_get_prop ph x p
                          else ph_get_prop ph x p < ph_get_prop ph y p)
          (list_sort (\<lambda>obj. ph_get_prop ph obj p) r (run_sort ph xs specs))"
    using Cons.IH by (rule sorted_wrt_list_sort)
  then show ?case
    by (simp add: s run_sort_Cons)
qed

lemma run_sort_stable:
  assumes "\<And>y p. P y \<Longrightarrow> p \<in> fst ` set specs \<Longrightarrow> ph_get_prop ph y p = c p"
  shows "filter P (run_sort ph xs specs) = filter P xs"
  using assms
proof (induction specs)
  case Nil
  then show ?case by (simp add: run_sort_Nil)
next
  case (Cons s specs)
  obtain p r where s: "s = (p, r)" by (cases s)
  have "filter P (list_sort (\<lambda>obj. ph_get_prop ph obj p) r (run_sort ph xs specs))
        = filter P (run_sort ph xs specs)"
    by (rule list_sort_stable_pred [where c = "c p"]) (simp add: Cons.prems s)
  also have "\<dots> = filter P xs"
    by (rule Cons.IH) (simp add: Cons.prems)
  finally show ?case by (simp add: s run_sort_Cons)
qed

subsection \<open>Dictionaries as association lists\<close>

lemma update_fresh: "k \<notin> fst ` set al \<Longrightarrow> AList.update k v al = al @ [(k, v)]"
  by (induction al) auto

lemma removeAll_filter:
  "removeAll a (filter P ys) = filter (\<lambda>b. b \<noteq> a \<and> P b) ys"
  by (induction ys) auto

lemma fold_update_keys:
  "map fst (fold (\<lambda>x. AList.update (k x) (v x)) xs acc)
   = map fst acc @ first_seen (filter (\<lambda>a. a \<notin> set (map fst acc)) (map k xs))"
proof (induction xs arbitrary: acc)
  case Nil
  then show ?case by simp
next
  case (Cons x xs)
  show ?case
  proof (cases "k x \<in> set (map fst acc)")
    case True
    then show ?thesis by (simp add: Cons.IH update_keys)
  next
    case False
    have "removeAll (k x) (filter (\<lambda>a. a \<notin> set (map fst acc)) (map k xs))
          = filter (\<lambda>a. a \<notin> set (map fst acc @ [k x])) (map k xs)"
      by (simp add: removeAll_filter conj_commute)
    with False show ?thesis by (simp add: Cons.IH update_keys)
  qed
qed

lemma fold_update_map_of:
  "map_of (fold (\<lambda>x. AList.update (k x) (v x)) xs acc)
   = map_of acc ++ map_of (rev (map (\<lambda>x. (k x, v x)) xs))"
proof (induction xs arbitrary: acc)
  case Nil
  then show ?case by simp
next
  case (Cons x xs)
  show ?case
    by (auto simp: Cons.IH update_conv' fun_eq_iff map_add_def split: option.splits)
qed

lemma fold_update_distinct:
  assumes "distinct (map k xs)" "set (map k xs) \<inter> set (map fst acc) = {}"
  shows "fold (\<lambda>x. AList.update (k x) (v x)) xs acc = acc @ map (\<lambda>x. (k x, v x)) xs"
  using assms
proof (induction xs arbitrary: acc)
  case Nil
  then show ?case by simp
next
  case (Cons x xs)
  from Cons.prems have fresh: "k x \<notin> fst ` set acc" by auto
  have "fold (\<lambda>x. AList.update (k x) (v x)) xs (acc @ [(k x, v x)])
        = (acc @ [(k x, v x)]) @ map (\<lambda>x. (k x, v x)) xs"
    using Cons.prems by (intro Cons.IH) auto
  with fresh show ?case by (simp add: update_fresh)
qed

lemma first_seen_set [simp]: "set (first_seen xs) = set xs"
  by (induction xs rule: first_seen.induct) auto

lemma distinct_first_seen [simp]: "distinct (first_seen xs)"
  by (induction xs rule: first_seen.induct) auto

lemma first_seen_distinct: "distinct xs \<Longrightarrow> first_seen xs = xs"
  by (induction xs) auto

lemma parse_sort_by_loop_ok:
  assumes "\<forall>p \<in> fst ` set specs. ph_check_supported (parser_prop_handler q) p"
  shows "parse_sort_by_loop q specs
         = (Inr (), q\<lparr>sort_by := fold (\<lambda>s. AList.update (fst s) (snd s)) specs (sort_by q)\<rparr>)"
  using assms
proof (induction specs arbitrary: q)
  case Nil
  then show ?case by simp
next
  case (Cons s specs)
  obtain p r where s: "s = (p, r)" by (cases s)
  have "parse_sort_by_loop (q\<lparr>sort_by := AList.update p r (sort_by q)\<rparr>) specs
        = (Inr (), q\<lparr>sort_by := AList.update p r (sort_by q)\<rparr>
             \<lparr>sort_by := fold (\<lambda>s. AList.update (fst s) (snd s)) specs
                           (sort_by (q\<lparr>sort_by := AList.update p r (sort_by q)\<rparr>))\<rparr>)"
    using Cons.prems by (intro Cons.IH) simp
  moreover have "check_prop_valid q p = Inr ()"
    using Cons.prems by (simp add: s check_prop_valid_def)
  ultimately show ?case by (simp add: s)
qed

lemma parse_sort_by_ok:
  assumes "\<forall>p \<in> fst ` set specs. ph_check_supported (parser_prop_handler q) p"
  shows "parse_sort_by q specs
         = (Inr (), q\<lparr>sort_by := fold (\<lambda>s. AList.update (fst s) (snd s)) specs []\<rparr>)"
  using parse_sort_by_loop_ok [of specs "q\<lparr>sort_by := []\<rparr>"] assms
  by (simp add: parse_sort_by_def)

lemma recorded_keys:
  "map fst (fold (\<lambda>s. AList.update (fst s) (snd s)) specs []) = first_seen (map fst specs)"
  using fold_update_keys [of fst snd specs "[]"] by simp

lemma recorded_map_of:
  "map_of (fold (\<lambda>s. AList.update (fst s) (snd s)) specs []) = map_of (rev specs)"
  using fold_update_map_of [of fst snd specs "[]"] by simp

lemma recorded_distinct:
  "distinct (map fst specs) \<Longrightarrow> fold (\<lambda>s. AList.update (fst s) (snd s)) specs [] = specs"
  using fold_update_distinct [of fst specs "[]" snd] by simp

lemma first_seen_Nil_iff [simp]: "first_seen xs = [] \<longleftrightarrow> xs = []"
  by (cases xs) simp_all

lemma run_sort_empty [simp]: "run_sort ph [] specs = []"
  using mset_run_sort [of ph "[]" specs] by simp

lemma run_parser_flat:
  assumes "group_by q = None"
  shows "run_parser pn fmt q xs
         = (Flat (run_sort (parser_prop_handler q) xs (sort_by q)),
            run_sort (parser_prop_handler q) xs (sort_by q), q)"
proof (cases "xs = []")
  case True
  then show ?thesis by (simp add: run_parser_def)
next
  case False
  then show ?thesis
    using assms by (cases "sort_by q = []") (simp_all add: run_parser_def Let_def run_sort_Nil)
qed


lemma ex_sorted_value:
  "fst (run_parser ex_prop_name int_str
          (snd (parse_sort_by ex_parser [(Prop_A, False), (Prop_B, True)]))
          [(2, 1), (1, 1), (2, 3), (1, 2)])
   = Flat [(1, 2), (1, 1), (2, 3), (2, 1)]"
  by code_simp

lemma ex_desc_value:
  "fst (run_parser ex_prop_name int_str
          (snd (parse_sort_by ex_parser [(Prop_A, True)]))
          [(2, 1), (1, 1), (3, 3), (1, 2)])
   = Flat [(3, 3), (2, 1), (1, 1), (1, 2)]"
  by code_simp



subsection \<open>The caller's list\<close>

lemma run_parser_list_after:
  "fst (snd (run_parser pn fmt q xs)) = run_sort (parser_prop_handler q) xs (sort_by q)"
proof (cases "xs = []")
  case True
  then show ?thesis by (simp add: run_parser_def)
next
  case False
  then show ?thesis
    by (cases "sort_by q = []")
      (simp_all add: run_parser_def Let_def run_sort_Nil split: option.splits)
qed

lemma run_parser_fields:
  "sort_by (snd (snd (run_parser pn fmt q xs))) = sort_by q
   \<and> group_by (snd (snd (run_parser pn fmt q xs))) = group_by q
   \<and> parser_prop_handler (snd (snd (run_parser pn fmt q xs))) = parser_prop_handler q"
  by (simp add: run_parser_def Let_def split: option.splits)




subsection \<open>Grouping\<close>

lemma fold_update_key_set:
  "fst ` set (fold (\<lambda>x. AList.update (k x) (v x)) xs acc) = fst ` set acc \<union> k ` set xs"
  by (induction xs arbitrary: acc) (auto simp: dom_update)

lemma group_ranges_loop_fold:
  "group_ranges_loop ph gb ranges gm
   = fold (\<lambda>r. AList.update (fst r) (\<lambda>obj. ph_get_prop ph obj gb \<in> set (snd r))) ranges gm"
  by (induction ranges arbitrary: gm) auto

lemma run_group_by_fold:
  "run_group_by ys gm = fold (\<lambda>g. AList.update (fst g) (filter (snd g) ys)) gm []"
  by (simp add: run_group_by_def case_prod_unfold)

lemma run_group_by_distinct:
  assumes "distinct (map fst gm)"
  shows "run_group_by ys gm = map (\<lambda>g. (fst g, filter (snd g) ys)) gm"
  using fold_update_distinct [of fst gm "[]" "\<lambda>g. filter (snd g) ys"] assms
  by (simp add: run_group_by_fold)

lemma run_group_by_names: "fst ` set (run_group_by ys gm) = fst ` set gm"
  using fold_update_key_set [of fst "\<lambda>g. filter (snd g) ys" gm "[]"]
  by (simp add: run_group_by_fold)

lemma run_parser_grouped:
  assumes "group_by q = Some gb" "group_mappings q \<noteq> []" "xs \<noteq> []"
  shows "fst (run_parser pn fmt q xs)
         = Grouped (run_group_by (run_sort (parser_prop_handler q) xs (sort_by q))
                      (group_mappings q))"
  using assms by (cases "sort_by q = []") (simp_all add: run_parser_def Let_def run_sort_Nil)

lemma run_parser_unique_vals:
  assumes "group_by q = Some gb" "group_mappings q = []" "xs \<noteq> []"
  shows "fst (run_parser pn fmt q xs)
         = Grouped (run_group_by (run_sort (parser_prop_handler q) xs (sort_by q))
                      (build_unique_val_groups pn fmt (parser_prop_handler q)
                         (run_sort (parser_prop_handler q) xs (sort_by q)) gb))"
  using assms by (cases "sort_by q = []") (simp_all add: run_parser_def Let_def run_sort_Nil)

lemma unique_vals_first_seen:
  "map fst (fold (\<lambda>obj d. AList.update (f obj) () d) ys []) = first_seen (map f ys)"
  using fold_update_keys [of f "\<lambda>obj. ()" ys "[]"] by simp

lemma build_unique_val_groups_fold:
  "build_unique_val_groups pn fmt ph ys gb
   = fold (\<lambda>val. AList.update (group_name pn fmt gb val) (\<lambda>obj. ph_get_prop ph obj gb = val))
       (first_seen (map (\<lambda>obj. ph_get_prop ph obj gb) ys)) []"
  by (simp add: build_unique_val_groups_def Let_def unique_vals_first_seen)

lemma build_unique_val_groups_names:
  "fst ` set (build_unique_val_groups pn fmt ph ys gb)
   = group_name pn fmt gb ` (\<lambda>obj. ph_get_prop ph obj gb) ` set ys"
  using fold_update_key_set [of "group_name pn fmt gb" "\<lambda>val obj. ph_get_prop ph obj gb = val"
      "first_seen (map (\<lambda>obj. ph_get_prop ph obj gb) ys)" "[]"]
  by (simp add: build_unique_val_groups_fold)

lemma build_unique_val_groups_inj:
  assumes "inj_on fmt ((\<lambda>obj. ph_get_prop ph obj gb) ` set ys)"
  shows "build_unique_val_groups pn fmt ph ys gb
         = map (\<lambda>val. (group_name pn fmt gb val, \<lambda>obj. ph_get_prop ph obj gb = val))
             (first_seen (map (\<lambda>obj. ph_get_prop ph obj gb) ys))"
proof -
  let ?vals = "first_seen (map (\<lambda>obj. ph_get_prop ph obj gb) ys)"
  have "inj_on (group_name pn fmt gb) (set ?vals)"
    using assms by (auto simp: inj_on_def group_name_def)
  then have "distinct (map (group_name pn fmt gb) ?vals)"
    by (simp add: distinct_map)
  then show ?thesis
    using fold_update_distinct [of "group_name pn fmt gb" ?vals "[]"
        "\<lambda>val obj. ph_get_prop ph obj gb = val"]
    by (simp add: build_unique_val_groups_fold)
qed

lemma count_spaces_group_name:
  "3 \<le> length (filter (\<lambda>c. c = CHR '' '') (group_name pn fmt gb v))"
  by (simp add: group_name_def)

lemma group_name_not_ungrouped: "group_name pn fmt gb v \<noteq> ''ungrouped results''"
proof
  assume "group_name pn fmt gb v = ''ungrouped results''"
  then have "length (filter (\<lambda>c. c = CHR '' '') (group_name pn fmt gb v))
             = length (filter (\<lambda>c. c = CHR '' '') ''ungrouped results'')"
    by simp
  also have "\<dots> = 1" by simp
  finally show False using count_spaces_group_name [of pn fmt gb v] by simp
qed

lemma parse_group_by_no_ranges:
  assumes "ph_check_supported (parser_prop_handler q) gb"
  shows "parse_group_by q gb None incl = (Inr (), q\<lparr>group_by := Some gb\<rparr>)"
  using assms by (simp add: parse_group_by_def check_prop_valid_def)

lemma parse_group_by_ranges:
  assumes "ph_check_supported (parser_prop_handler q) gb" "group_mappings q = []"
    "ranges \<noteq> []" "distinct (map fst ranges)" "''ungrouped results'' \<notin> set (map fst ranges)"
  shows "parse_group_by q gb (Some ranges) True
         = (Inr (), q\<lparr>group_by := Some gb,
              group_mappings :=
                map (\<lambda>r. (fst r, \<lambda>obj. ph_get_prop (parser_prop_handler q) obj gb \<in> set (snd r)))
                  ranges
                @ [(''ungrouped results'',
                    \<lambda>obj. ph_get_prop (parser_prop_handler q) obj gb
                          \<notin> set (concat (map snd ranges)))]\<rparr>)"
proof -
  let ?ph = "parser_prop_handler q"
  let ?gm = "map (\<lambda>r. (fst r, \<lambda>obj. ph_get_prop ?ph obj gb \<in> set (snd r))) ranges"
  have loop: "group_ranges_loop ?ph gb ranges [] = ?gm"
    using fold_update_distinct [of fst ranges "[]" "\<lambda>r obj. ph_get_prop ?ph obj gb \<in> set (snd r)"]
      assms(4)
    by (simp add: group_ranges_loop_fold)
  have "''ungrouped results'' \<notin> fst ` set ?gm"
    using assms(5) by (simp add: image_image)
  then have "AList.update ''ungrouped results''
               (\<lambda>obj. ph_get_prop ?ph obj gb \<notin> set (concat (map snd ranges))) ?gm
             = ?gm @ [(''ungrouped results'',
                       \<lambda>obj. ph_get_prop ?ph obj gb \<notin> set (concat (map snd ranges)))]"
    by (rule update_fresh)
  then show ?thesis
    using assms(1,2,3) loop
    by (simp add: parse_group_by_def check_prop_valid_def Let_def)
qed


lemma run_parser_unique_vals_inj:
  assumes "group_by q = Some gb"
    and "group_mappings q = []"
    and "xs \<noteq> []"
    and "inj_on fmt ((\<lambda>obj. ph_get_prop (parser_prop_handler q) obj gb) ` set xs)"
  shows "fst (run_parser pn fmt q xs)
         = Grouped
             (map (\<lambda>v. (group_name pn fmt gb v,
                    filter (\<lambda>obj. ph_get_prop (parser_prop_handler q) obj gb = v)
                      (run_sort (parser_prop_handler q) xs (sort_by q))))
                (first_seen
                   (map (\<lambda>obj. ph_get_prop (parser_prop_handler q) obj gb)
                      (run_sort (parser_prop_handler q) xs (sort_by q)))))"
proof -
  let ?ph = "parser_prop_handler q"
  let ?ys = "run_sort ?ph xs (sort_by q)"
  let ?vals = "first_seen (map (\<lambda>obj. ph_get_prop ?ph obj gb) ?ys)"
  have 2: "fst (run_parser pn fmt q xs)
           = Grouped (run_group_by ?ys (build_unique_val_groups pn fmt ?ph ?ys gb))"
    using assms(1,2,3) by (rule run_parser_unique_vals)
  have "set ?ys = set xs"
    using mset_run_sort [of ?ph xs "sort_by q"] by (metis set_mset_mset)
  with assms(4) have inj: "inj_on fmt ((\<lambda>obj. ph_get_prop ?ph obj gb) ` set ?ys)"
    by simp
  have 3: "build_unique_val_groups pn fmt ?ph ?ys gb
           = map (\<lambda>val. (group_name pn fmt gb val, \<lambda>obj. ph_get_prop ?ph obj gb = val)) ?vals"
    using inj by (rule build_unique_val_groups_inj)
  have "inj_on (group_name pn fmt gb) (set ?vals)"
    using inj by (auto simp: inj_on_def group_name_def)
  then have "distinct (map fst (map (\<lambda>val. (group_name pn fmt gb val,
                                        \<lambda>obj. ph_get_prop ?ph obj gb = val)) ?vals))"
    by (simp add: distinct_map comp_def)
  then have 4: "run_group_by ?ys (map (\<lambda>val. (group_name pn fmt gb val,
                                        \<lambda>obj. ph_get_prop ?ph obj gb = val)) ?vals)
                = map (\<lambda>g. (fst g, filter (snd g) ?ys))
                    (map (\<lambda>val. (group_name pn fmt gb val,
                                 \<lambda>obj. ph_get_prop ?ph obj gb = val)) ?vals)"
    by (rule run_group_by_distinct)
  show ?thesis
    unfolding 2 3 4 by (simp add: comp_def)
qed


lemma parse_group_by_no_ranges_mappings:
  "group_mappings (snd (parse_group_by q gb None incl)) = group_mappings q"
  by (simp add: parse_group_by_def check_prop_valid_def)

lemma parse_group_by_no_ranges_flag:
  "parse_group_by q gb None True = parse_group_by q gb None False"
  by (simp add: parse_group_by_def Let_def split: sum.splits)


lemma ex_parser_fields [simp]:
  "ph_check_supported (parser_prop_handler ex_parser) p"
  "group_mappings ex_parser = []"
  "sort_by ex_parser = []"
  "group_by ex_parser = None"
  "ph_get_prop (parser_prop_handler ex_parser) obj Prop_A = fst obj"
  "ph_get_prop (parser_prop_handler ex_parser) obj Prop_B = snd obj"
  by (simp_all add: ex_parser_def QueryParser_init_def ex_pair_handler_def)

lemma ex_ranges_value:
  "fst (run_parser ex_prop_name int_str
          (snd (parse_group_by ex_parser Prop_A
                  (Some [(''low'', [1, 2]), (''high'', [3, 4])]) True))
          [(1, 0), (2, 0), (3, 0), (4, 0), (5, 0)])
   = Grouped [(''low'', [(1, 0), (2, 0)]), (''high'', [(3, 0), (4, 0)]),
              (''ungrouped results'', [(5, 0)])]"
  by code_simp



text \<open>
  Two more configurations outside the amended claim: a range that is itself named
  \<^verbatim>\<open>ungrouped results\<close> is replaced by the group of the records in no range, and an
  empty dictionary of ranges counts as no ranges, so the groups are derived from the
  values.
\<close>

lemma range_named_ungrouped_is_replaced:
  "fst (run_parser ex_prop_name int_str
          (snd (parse_group_by ex_parser Prop_A (Some [(''ungrouped results'', [1])]) True))
          [(1, 0), (2, 0)])
   = Grouped [(''ungrouped results'', [(2, 0)])]"
  by code_simp

lemma empty_ranges_are_no_ranges:
  "fst (run_parser ex_prop_name int_str
          (snd (parse_group_by ex_parser Prop_A (Some []) True)) [(1, 0), (2, 0)])
   = Grouped [(''PROP_A with value 1'', [(1, 0)]), (''PROP_A with value 2'', [(2, 0)])]"
  by code_simp

lemma range_overlap_value:
  "fst (run_parser ex_prop_name int_str
          (snd (parse_group_by ex_parser Prop_A
                  (Some [(''small'', [1, 2]), (''even'', [2, 4])]) True))
          [(1, 0), (2, 0), (3, 0)])
   = Grouped [(''small'', [(1, 0), (2, 0)]), (''even'', [(2, 0)]),
              (''ungrouped results'', [(3, 0)])]"
  by code_simp

lemma ex_int_str [simp]: "int_str 1 = ''1''" "int_str 2 = ''2''" "int_str 3 = ''3''"
  by code_simp+

lemma ex_unique_value:
  "fst (run_parser ex_prop_name int_str (snd (parse_group_by ex_parser Prop_A None False))
          [(2, 0), (1, 0), (2, 1), (3, 0)])
   = Grouped [(''PROP_A with value 2'', [(2, 0), (2, 1)]),
              (''PROP_A with value 1'', [(1, 0)]),
              (''PROP_A with value 3'', [(3, 0)])]"
  by code_simp




end
